theory Spec2Isabelle
  imports Complex_Main "HOL-Library.Sublist"
begin

section \<open>Python values and exceptions\<close>

text \<open>
  The embedding follows \<^verbatim>\<open>src/src/scatter_svg/plot.py\<close>; the older script
  \<^verbatim>\<open>src/plot-models-scatter.py\<close> has the same \<^verbatim>\<open>load_csv_file\<close> and
  \<^verbatim>\<open>create_scatter_plot\<close> statement for statement.

  Every exception the Python can raise is a value of \<open>error\<close>; a function that can
  raise returns \<open>error + 'a\<close>, with \<open>Inl\<close> the exception. \<open>LibraryError\<close> stands
  for whatever else pandas, json or matplotlib raise on their own
  (\<^verbatim>\<open>EmptyDataError\<close>, \<^verbatim>\<open>RecursionError\<close>, ...), named by the string.
\<close>

datatype error =
    IndexError
  | KeyError
  | ValueError
  | ZeroDivisionError
  | JSONDecodeError
  | OverflowError
  | OSError
  | LibraryError string

text \<open>
  \<^verbatim>\<open>str.lower()\<close> on ASCII text: the letters \<^verbatim>\<open>A\<close>..\<^verbatim>\<open>Z\<close> (codes 65..90) move
  to \<^verbatim>\<open>a\<close>..\<^verbatim>\<open>z\<close>, every other character stays. Column names outside ASCII are
  not covered by this model.
\<close>

definition lower_char :: "char \<Rightarrow> char" where
  "lower_char c =
     (let n = (of_char c :: nat)
      in if 65 \<le> n \<and> n \<le> 90 then char_of (n + 32) else c)"

definition lower :: "string \<Rightarrow> string" where
  "lower s = map lower_char s"

text \<open>
  \<^verbatim>\<open>sub in s\<close> on strings: \<open>sub\<close> occurs in \<open>s\<close> as a contiguous block. The
  search tries every start position from the left.
\<close>

fun py_in :: "'a list \<Rightarrow> 'a list \<Rightarrow> bool" where
  "py_in sub [] = (sub = [])"
| "py_in sub (c # s) = (prefix sub (c # s) \<or> py_in sub s)"

text \<open>
  \<^verbatim>\<open>next(iterator, default)\<close>: the first item the iterator yields, or the default
  when it yields none. Python evaluates the default before the call, whether it is
  needed or not, so the callers below compute it first. The generator
  \<^verbatim>\<open>(c for c in cols if P(c))\<close> yields the items of \<open>filter P cols\<close> in order.
\<close>

definition py_next :: "'a list \<Rightarrow> 'a \<Rightarrow> 'a" where
  "py_next gen dflt = (case gen of [] \<Rightarrow> dflt | c # _ \<Rightarrow> c)"

section \<open>The table a CSV is read into\<close>

text \<open>
  \<^verbatim>\<open>pd.read_csv\<close> is a library call; what the code uses of its result is the list
  of column names \<^verbatim>\<open>df.columns\<close>, the rows \<^verbatim>\<open>df.iterrows()\<close> yields, and
  \<^verbatim>\<open>row[col]\<close>. A frame is its column names, its number of data rows, and the cell
  of row \<open>i\<close> under a column name. \<open>'c\<close> is the type of a cell, whatever pandas made
  of the text (a number, a string).
\<close>

record 'c dataframe =
  columns :: "string list"
  nrows :: nat
  cell :: "nat \<Rightarrow> string \<Rightarrow> 'c"

text \<open>\<^verbatim>\<open>df.columns[i]\<close> raises \<^verbatim>\<open>IndexError\<close> past the last column.\<close>

definition columns_at :: "string list \<Rightarrow> nat \<Rightarrow> error + string" where
  "columns_at cols i = (if i < length cols then Inr (cols ! i) else Inl IndexError)"

text \<open>\<^verbatim>\<open>row[col]\<close> raises \<^verbatim>\<open>KeyError\<close> for a name that is no column.\<close>

definition row_get :: "'c dataframe \<Rightarrow> nat \<Rightarrow> string \<Rightarrow> error + 'c" where
  "row_get df i c = (if c \<in> set (columns df) then Inr (cell df i c) else Inl KeyError)"

section \<open>The plot data\<close>

text \<open>
  The dict the loaders return and \<^verbatim>\<open>create_scatter_plot\<close> reads: \<^verbatim>\<open>'points'\<close>, a
  list of dicts with \<^verbatim>\<open>'label'\<close>, \<^verbatim>\<open>'x'\<close> and \<^verbatim>\<open>'y'\<close>, and the optional
  \<^verbatim>\<open>'xlabel'\<close>, \<^verbatim>\<open>'ylabel'\<close> and \<^verbatim>\<open>'title'\<close> (\<open>None\<close> when the key is absent).
\<close>

record ('l, 'x, 'y) point =
  p_label :: 'l
  p_x :: 'x
  p_y :: 'y

record ('l, 'x, 'y) data =
  points :: "('l, 'x, 'y) point list"
  xlabel :: "string option"
  ylabel :: "string option"
  title :: "string option"

section \<open>Column detection and the CSV loaders\<close>

definition is_label_name :: "string \<Rightarrow> bool" where
  "is_label_name c = (py_in ''label'' (lower c) \<or> py_in ''name'' (lower c))"

definition is_x_name :: "string \<Rightarrow> bool" where
  "is_x_name c =
     (py_in ''x'' (lower c) \<or> py_in ''speed'' (lower c) \<or> py_in ''time'' (lower c))"

definition is_y_name :: "string \<Rightarrow> bool" where
  "is_y_name c =
     (py_in ''y'' (lower c) \<or> py_in ''quality'' (lower c) \<or> py_in ''tier'' (lower c))"

text \<open>
  The three \<^verbatim>\<open>next(...)\<close> statements, in the source's order. Each default
  \<^verbatim>\<open>df.columns[k]\<close> is an argument of \<^verbatim>\<open>next\<close> and so is evaluated before the
  generator is asked for anything.
\<close>

definition detect_columns :: "string list \<Rightarrow> error + (string \<times> string \<times> string)" where
  "detect_columns cols =
     (case columns_at cols 0 of
        Inl e \<Rightarrow> Inl e
      | Inr d0 \<Rightarrow>
          let label_col = py_next (filter is_label_name cols) d0 in
          (case columns_at cols 1 of
             Inl e \<Rightarrow> Inl e
           | Inr d1 \<Rightarrow>
               let x_col = py_next (filter is_x_name cols) d1 in
               (case columns_at cols 2 of
                  Inl e \<Rightarrow> Inl e
                | Inr d2 \<Rightarrow>
                    let y_col = py_next (filter is_y_name cols) d2 in
                    Inr (label_col, x_col, y_col))))"

text \<open>
  A list comprehension whose items can raise: the items are evaluated left to right and
  the first exception ends the comprehension.
\<close>

fun collect :: "('e + 'a) list \<Rightarrow> 'e + 'a list" where
  "collect [] = Inr []"
| "collect (r # rs) =
     (case r of
        Inl e \<Rightarrow> Inl e
      | Inr v \<Rightarrow> (case collect rs of Inl e \<Rightarrow> Inl e | Inr vs \<Rightarrow> Inr (v # vs)))"

text \<open>
  \<^verbatim>\<open>{"label": row[label_col], "x": row[x_col], "y": row[y_col]}\<close> for row \<open>i\<close>.
\<close>

definition row_point ::
  "'c dataframe \<Rightarrow> string \<Rightarrow> string \<Rightarrow> string \<Rightarrow> nat \<Rightarrow> error + ('c, 'c, 'c) point" where
  "row_point df label_col x_col y_col i =
     (case row_get df i label_col of
        Inl e \<Rightarrow> Inl e
      | Inr l \<Rightarrow>
          (case row_get df i x_col of
             Inl e \<Rightarrow> Inl e
           | Inr xv \<Rightarrow>
               (case row_get df i y_col of
                  Inl e \<Rightarrow> Inl e
                | Inr yv \<Rightarrow> Inr \<lparr>p_label = l, p_x = xv, p_y = yv\<rparr>)))"

text \<open>
  What \<^verbatim>\<open>load_csv_file\<close> does with the frame once it is read; the \<^verbatim>\<open>except\<close>
  branch of \<^verbatim>\<open>load_stdin\<close> repeats the same statements.
\<close>

definition frame_to_data :: "'c dataframe \<Rightarrow> error + ('c, 'c, 'c) data" where
  "frame_to_data df =
     (case detect_columns (columns df) of
        Inl e \<Rightarrow> Inl e
      | Inr (label_col, x_col, y_col) \<Rightarrow>
          (case collect (map (row_point df label_col x_col y_col) [0..<nrows df]) of
             Inl e \<Rightarrow> Inl e
           | Inr ps \<Rightarrow>
               Inr \<lparr>points = ps, xlabel = Some x_col, ylabel = Some y_col,
                    title = Some ''Scatter Plot''\<rparr>))"

text \<open>
  \<^verbatim>\<open>load_csv_file(filepath)\<close>, with \<^verbatim>\<open>pd.read_csv\<close> as a parameter: it returns the
  frame or raises.
\<close>

definition load_csv_file ::
  "('p \<Rightarrow> error + 'c dataframe) \<Rightarrow> 'p \<Rightarrow> error + ('c, 'c, 'c) data" where
  "load_csv_file read_csv filepath =
     (case read_csv filepath of Inl e \<Rightarrow> Inl e | Inr df \<Rightarrow> frame_to_data df)"

text \<open>
  \<^verbatim>\<open>load_stdin()\<close>, as a function of the text read from stdin. \<^verbatim>\<open>json.loads\<close> and
  \<^verbatim>\<open>pd.read_csv\<close> are parameters. The function returns either the parsed JSON
  value as it is (\<open>Parsed\<close>, of any type \<open>'j\<close>) or the dict built from the CSV
  (\<open>Table\<close>). Only \<^verbatim>\<open>JSONDecodeError\<close> is caught.
\<close>

datatype ('j, 'c) loaded = Parsed 'j | Table "('c, 'c, 'c) data"

definition load_stdin ::
  "(string \<Rightarrow> error + 'j) \<Rightarrow> (string \<Rightarrow> error + 'c dataframe) \<Rightarrow> string
     \<Rightarrow> error + ('j, 'c) loaded" where
  "load_stdin json_loads read_csv stdin_content =
     (case json_loads stdin_content of
        Inr parsed \<Rightarrow> Inr (Parsed parsed)
      | Inl e \<Rightarrow>
          if e = JSONDecodeError
          then (case read_csv stdin_content of
                  Inl e' \<Rightarrow> Inl e'
                | Inr df \<Rightarrow>
                    (case frame_to_data df of
                       Inl e' \<Rightarrow> Inl e'
                     | Inr d \<Rightarrow> Inr (Table d)))
          else Inl e)"

section \<open>The plot\<close>

text \<open>
  \<^verbatim>\<open>create_scatter_plot\<close> builds a matplotlib figure through library calls:
  \<^verbatim>\<open>plt.style.use\<close>, \<^verbatim>\<open>plt.subplots\<close>, \<^verbatim>\<open>plt.cm.viridis\<close>, \<^verbatim>\<open>ax.scatter\<close>,
  \<^verbatim>\<open>ax.text\<close>, \<^verbatim>\<open>adjust_text\<close> and the axis calls. None of them is code of this
  repository, and each of them can raise: an unknown style name makes
  \<^verbatim>\<open>plt.style.use\<close> raise \<^verbatim>\<open>OSError\<close>, a coordinate too large for a float makes
  \<^verbatim>\<open>ax.scatter\<close> raise \<^verbatim>\<open>OverflowError\<close>. So the library is a parameter of the
  model. It says, for each call with its arguments and the calls made before it, whether
  the call raises, and where \<^verbatim>\<open>adjust_text\<close> leaves the labels it is given (it moves
  the text artists in place). The function is run against it: the calls are made in the
  source's order, the first one that raises ends the run with its exception, and the
  result is the list of calls made together with the figure or the exception.

  A coordinate is a number; it is modelled by its exact value, a rational, which is how
  Python compares an \<^verbatim>\<open>int\<close> with a \<^verbatim>\<open>float\<close> (\<^verbatim>\<open>4 == 4.0\<close>). NaN and the
  infinities are not covered. The x coordinate and the label are only passed on, so
  their types are left open. The font arguments of the axis labels and the arguments of
  \<^verbatim>\<open>ax.grid\<close> are constants and left out.
\<close>

datatype align = Center | Left | Right | Top | Bottom

record bbox_props =
  boxstyle :: string
  facecolor :: string
  edgecolor :: string
  bbox_alpha :: rat

text \<open>One \<^verbatim>\<open>ax.text(x, y, label, fontsize=.., ha=.., va=.., bbox=..)\<close> artist.\<close>

record ('l, 'x) text_artist =
  t_x :: 'x
  t_y :: rat
  t_s :: 'l
  fontsize :: nat
  ha :: align
  va :: align
  bbox :: bbox_props

text \<open>
  The \<^verbatim>\<open>c=\<close> argument of the scatter: the colormap \<^verbatim>\<open>plt.cm.viridis\<close> applied to
  a list of fractions, or the colour name.
\<close>

datatype colors = Viridis "rat list" | Named string

record 'x scatter_call =
  sc_x :: "'x list"
  sc_y :: "rat list"
  sc_s :: nat
  sc_c :: colors
  sc_alpha :: rat
  sc_edgecolors :: string
  sc_linewidth :: rat
  sc_zorder :: nat

record arrow_props =
  arrowstyle :: string
  arrow_color :: string
  arrow_lw :: rat
  arrow_alpha :: rat

record ('l, 'x) adjust_call =
  adj_texts :: "('l, 'x) text_artist list"
  arrowprops :: arrow_props
  expand_points :: "rat \<times> rat"
  expand_text :: "rat \<times> rat"
  force_points :: "rat \<times> rat"
  force_text :: "rat \<times> rat"
  lim :: nat

datatype ticklabel = Tier int | Str rat

record ('l, 'x) figure =
  fig_style :: "string option"
  fig_figsize :: "rat \<times> rat"
  scatter :: "'x scatter_call"
  texts :: "('l, 'x) text_artist list"
  adjust_text :: "('l, 'x) adjust_call"
  ax_xlabel :: string
  ax_ylabel :: string
  ax_title :: string
  yticks :: "(rat list \<times> ticklabel list) option"
  laid_out :: "('l, 'x) text_artist list"

text \<open>A library call with its arguments.\<close>

datatype ('l, 'x) call =
    Style_use string
  | Subplots "rat \<times> rat"
  | Cm_viridis "rat list"
  | Ax_scatter "'x scatter_call"
  | Ax_text "('l, 'x) text_artist"
  | Adjust_text "('l, 'x) adjust_call"
  | Set_xlabel string
  | Set_ylabel string
  | Set_title string
  | Grid
  | Set_axisbelow
  | Set_yticks "rat list"
  | Set_yticklabels "ticklabel list"
  | Tight_layout

text \<open>
  The library: \<open>raises done c\<close> is the exception call \<open>c\<close> raises after the calls
  \<open>done\<close>, or \<open>None\<close> if it returns; \<open>layout done a\<close> is the list of labels as
  \<^verbatim>\<open>adjust_text\<close> leaves them when called with \<open>a\<close> after the calls \<open>done\<close>.
\<close>

record ('l, 'x) library =
  raises :: "('l, 'x) call list \<Rightarrow> ('l, 'x) call \<Rightarrow> error option"
  layout :: "('l, 'x) call list \<Rightarrow> ('l, 'x) adjust_call \<Rightarrow> ('l, 'x) text_artist list"

text \<open>
  A straight run of library calls after the calls \<open>done\<close>: each call is made in turn,
  and the first that raises ends the run. The result is the calls made, the raising one
  included, and the exception if there was one.
\<close>

fun run_calls ::
  "('l, 'x) library \<Rightarrow> ('l, 'x) call list \<Rightarrow> ('l, 'x) call list
     \<Rightarrow> ('l, 'x) call list \<times> error option" where
  "run_calls lib done [] = (done, None)"
| "run_calls lib done (c # cs) =
     (case raises lib done c of
        Some e \<Rightarrow> (done @ [c], Some e)
      | None \<Rightarrow> run_calls lib (done @ [c]) cs)"

text \<open>
  After a run of calls: the exception of the call that raised, and otherwise what the
  code itself comes to next, a value or an exception of its own.
\<close>

definition finish :: "'c list \<times> error option \<Rightarrow> error + 'a \<Rightarrow> 'c list \<times> (error + 'a)" where
  "finish made nxt = (case snd made of Some e \<Rightarrow> (fst made, Inl e) | None \<Rightarrow> (fst made, nxt))"

text \<open>\<^verbatim>\<open>xs.index(v)\<close>: the first position holding \<open>v\<close>, \<^verbatim>\<open>ValueError\<close> if none.\<close>

fun py_index :: "'a list \<Rightarrow> 'a \<Rightarrow> error + nat" where
  "py_index [] v = Inl ValueError"
| "py_index (a # as) v =
     (if a = v then Inr 0
      else (case py_index as v of Inl e \<Rightarrow> Inl e | Inr i \<Rightarrow> Inr (Suc i)))"

text \<open>\<^verbatim>\<open>a / b\<close> on two non-negative ints: the quotient, \<^verbatim>\<open>ZeroDivisionError\<close> for \<open>b = 0\<close>.\<close>

definition py_truediv :: "nat \<Rightarrow> nat \<Rightarrow> error + rat" where
  "py_truediv a b = (if b = 0 then Inl ZeroDivisionError else Inr (of_nat a / of_nat b))"

text \<open>\<^verbatim>\<open>int(y)\<close> on a number truncates towards zero.\<close>

definition py_int :: "rat \<Rightarrow> int" where
  "py_int v = (if 0 \<le> v then \<lfloor>v\<rfloor> else \<lceil>v\<rceil>)"

text \<open>
  \<^verbatim>\<open>f"Tier {int(y)}" if y == int(y) else str(y)\<close>; \<open>Str y\<close> stands for the text
  \<^verbatim>\<open>str(y)\<close>.
\<close>

definition tick_label :: "rat \<Rightarrow> ticklabel" where
  "tick_label v = (if v = of_int (py_int v) then Tier (py_int v) else Str v)"

text \<open>\<^verbatim>\<open>y_values.index(y) / len(unique_y)\<close>, one item of the colour comprehension.\<close>

definition color_fraction :: "rat list \<Rightarrow> rat list \<Rightarrow> rat \<Rightarrow> error + rat" where
  "color_fraction y_values unique_y v =
     (case py_index y_values v of
        Inl e \<Rightarrow> Inl e
      | Inr i \<Rightarrow> py_truediv i (length unique_y))"

text \<open>
  The colours of the points: \<^verbatim>\<open>if len(unique_y) <= 10: colors = plt.cm.viridis([...])\<close>
  with one fraction per y-value, \<^verbatim>\<open>else: colors = "steelblue"\<close>.
\<close>

definition tier_colors :: "rat list \<Rightarrow> rat list \<Rightarrow> error + colors" where
  "tier_colors y_values unique_y =
     (if length unique_y \<le> 10
      then (case collect (map (color_fraction y_values unique_y) y_values) of
              Inl e \<Rightarrow> Inl e
            | Inr fs \<Rightarrow> Inr (Viridis fs))
      else Inr (Named ''steelblue''))"

text \<open>
  \<^verbatim>\<open>dict.get(key, default)\<close> on an optional key of the data.
\<close>

definition get_or :: "'a option \<Rightarrow> 'a \<Rightarrow> 'a" where
  "get_or v dflt = (case v of None \<Rightarrow> dflt | Some a \<Rightarrow> a)"

text \<open>
  \<^verbatim>\<open>if style != "default": plt.style.use(style)\<close> and
  \<^verbatim>\<open>fig, ax = plt.subplots(figsize=figsize)\<close>.
\<close>

definition opening_calls :: "rat \<times> rat \<Rightarrow> string \<Rightarrow> ('l, 'x) call list" where
  "opening_calls figsize style =
     (if style \<noteq> ''default'' then [Style_use style] else []) @ [Subplots figsize]"

text \<open>The arguments of \<^verbatim>\<open>ax.scatter\<close>.\<close>

definition scatter_arguments :: "'x list \<Rightarrow> rat list \<Rightarrow> colors \<Rightarrow> 'x scatter_call" where
  "scatter_arguments x_values y_values colors =
     \<lparr>sc_x = x_values, sc_y = y_values, sc_s = 100, sc_c = colors,
      sc_alpha = 6 / 10, sc_edgecolors = ''white'',
      sc_linewidth = 3 / 2, sc_zorder = 2\<rparr>"

text \<open>
  \<^verbatim>\<open>texts = [ax.text(x, y, label, ...) for x, y, label in zip(x_values, y_values, labels)]\<close>:
  the artists, in the order in which \<^verbatim>\<open>ax.text\<close> is called for them.
\<close>

definition label_artists :: "'x list \<Rightarrow> rat list \<Rightarrow> 'l list \<Rightarrow> ('l, 'x) text_artist list" where
  "label_artists x_values y_values labels =
     map (\<lambda>(xv, yv, l).
            \<lparr>t_x = xv, t_y = yv, t_s = l, fontsize = 8,
             ha = Center, va = Center,
             bbox = \<lparr>boxstyle = ''round,pad=0.3'', facecolor = ''white'',
                     edgecolor = ''none'', bbox_alpha = 7 / 10\<rparr>\<rparr>)
         (zip x_values (zip y_values labels))"

text \<open>The arguments of \<^verbatim>\<open>adjust_text\<close>.\<close>

definition adjust_arguments :: "('l, 'x) text_artist list \<Rightarrow> ('l, 'x) adjust_call" where
  "adjust_arguments ts =
     \<lparr>adj_texts = ts,
      arrowprops =
        \<lparr>arrowstyle = ''->'', arrow_color = ''gray'',
         arrow_lw = 1 / 2, arrow_alpha = 1 / 2\<rparr>,
      expand_points = (3 / 2, 3 / 2),
      expand_text = (6 / 5, 6 / 5),
      force_points = (1 / 2, 1 / 2),
      force_text = (1 / 2, 1 / 2),
      lim = 500\<rparr>"

text \<open>
  The calls up to the last \<^verbatim>\<open>ax.text\<close>: the opening, \<^verbatim>\<open>plt.cm.viridis\<close> on the
  fractions when the tiers are coloured, the scatter, one \<^verbatim>\<open>ax.text\<close> per label.
\<close>

definition drawing_calls ::
  "rat \<times> rat \<Rightarrow> string \<Rightarrow> 'x list \<Rightarrow> rat list \<Rightarrow> 'l list \<Rightarrow> colors \<Rightarrow> ('l, 'x) call list" where
  "drawing_calls figsize style x_values y_values labels colors =
     opening_calls figsize style
     @ (case colors of Viridis fs \<Rightarrow> [Cm_viridis fs] | Named n \<Rightarrow> [])
     @ [Ax_scatter (scatter_arguments x_values y_values colors)]
     @ map Ax_text (label_artists x_values y_values labels)"

text \<open>The calls after \<^verbatim>\<open>adjust_text\<close>: labels, title, grid, ticks, layout.\<close>

definition styling_calls :: "('l, 'x, rat) data \<Rightarrow> rat list \<Rightarrow> ('l, 'x) call list" where
  "styling_calls dat unique_y =
     [Set_xlabel (get_or (xlabel dat) ''X''),
      Set_ylabel (get_or (ylabel dat) ''Y''),
      Set_title (get_or (title dat) ''Scatter Plot''),
      Grid, Set_axisbelow]
     @ (if length unique_y \<le> 10
        then [Set_yticks unique_y, Set_yticklabels (map tick_label unique_y)]
        else [])
     @ [Tight_layout]"

text \<open>
  The library calls \<^verbatim>\<open>create_scatter_plot(data, figsize, style)\<close> makes, in order,
  when each of them returns. \<^verbatim>\<open>set(y_values)\<close> is a hash set: the order in which it
  hands its elements to \<^verbatim>\<open>sorted\<close> is not fixed by the language, so it is the
  parameter \<open>set_order\<close>, a function listing each distinct value of a list once. If the
  colour comprehension raises, the calls end after the opening.
\<close>

definition plot_calls ::
  "(rat list \<Rightarrow> rat list) \<Rightarrow> ('l, 'x, rat) data \<Rightarrow> rat \<times> rat \<Rightarrow> string
     \<Rightarrow> ('l, 'x) call list" where
  "plot_calls set_order dat figsize style =
     (let points = points dat;
          x_values = map p_x points;
          y_values = map p_y points;
          labels = map p_label points;
          unique_y = sort (set_order y_values)
      in (case tier_colors y_values unique_y of
            Inl e \<Rightarrow> opening_calls figsize style
          | Inr colors \<Rightarrow>
              drawing_calls figsize style x_values y_values labels colors
              @ [Adjust_text (adjust_arguments (label_artists x_values y_values labels))]
              @ styling_calls dat unique_y))"

text \<open>
  \<^verbatim>\<open>create_scatter_plot(data, figsize, style)\<close> run against a library: the calls made
  and either the figure returned or the exception raised, by a library call or by the
  colour comprehension. The figure holds what was drawn and the labels as
  \<^verbatim>\<open>adjust_text\<close> has left them.
\<close>

definition create_scatter_plot_with ::
  "('l, 'x) library \<Rightarrow> (rat list \<Rightarrow> rat list) \<Rightarrow> ('l, 'x, rat) data \<Rightarrow> rat \<times> rat \<Rightarrow> string
     \<Rightarrow> ('l, 'x) call list \<times> (error + ('l, 'x) figure)" where
  "create_scatter_plot_with lib set_order dat figsize style =
     (let points = points dat;
          x_values = map p_x points;
          y_values = map p_y points;
          labels = map p_label points;
          unique_y = sort (set_order y_values);
          made = run_calls lib [] (plot_calls set_order dat figsize style)
      in (case tier_colors y_values unique_y of
            Inl e \<Rightarrow> finish made (Inl e)
          | Inr colors \<Rightarrow>
              let texts = label_artists x_values y_values labels
              in finish made
                   (Inr \<lparr>fig_style = (if style \<noteq> ''default'' then Some style else None),
                         fig_figsize = figsize,
                         scatter = scatter_arguments x_values y_values colors,
                         texts = texts,
                         adjust_text = adjust_arguments texts,
                         ax_xlabel = get_or (xlabel dat) ''X'',
                         ax_ylabel = get_or (ylabel dat) ''Y'',
                         ax_title = get_or (title dat) ''Scatter Plot'',
                         yticks =
                           (if length unique_y \<le> 10
                            then Some (unique_y, map tick_label unique_y)
                            else None),
                         laid_out =
                           layout lib
                             (drawing_calls figsize style x_values y_values labels colors)
                             (adjust_arguments texts)\<rparr>)))"

text \<open>
  The plot with one fixed listing order for the set: first occurrences, in input order.
\<close>

definition create_scatter_plot ::
  "('l, 'x) library \<Rightarrow> ('l, 'x, rat) data \<Rightarrow> rat \<times> rat \<Rightarrow> string
     \<Rightarrow> ('l, 'x) call list \<times> (error + ('l, 'x) figure)" where
  "create_scatter_plot lib = create_scatter_plot_with lib remdups"

section \<open>What the specification says, in its own words\<close>

text \<open>
  The definitions of this section are not taken from the code. They state what the
  specification says a loader or the plot returns, so that the theorems can compare the
  code with them.
\<close>

text \<open>The lowercase name contains one of the keys as a substring.\<close>

definition name_mentions :: "string list \<Rightarrow> string \<Rightarrow> bool" where
  "name_mentions keys name \<longleftrightarrow> (\<exists>k\<in>set keys. \<exists>pre suf. lower name = pre @ k @ suf)"

text \<open>
  \<open>c\<close> is the first column whose lowercase name contains one of the keys, or, when no
  column does, the column at the fallback position.
\<close>

definition first_mentioning :: "string list \<Rightarrow> nat \<Rightarrow> string list \<Rightarrow> string \<Rightarrow> bool" where
  "first_mentioning keys fallback cols c \<longleftrightarrow>
     (\<exists>i<length cols. c = cols ! i \<and> name_mentions keys (cols ! i)
         \<and> (\<forall>j<i. \<not> name_mentions keys (cols ! j)))
     \<or> ((\<forall>n\<in>set cols. \<not> name_mentions keys n) \<and> fallback < length cols
         \<and> c = cols ! fallback)"

text \<open>
  One \<^verbatim>\<open>{label, x, y}\<close> point per data row, read under the three chosen columns,
  the axis labels set to the chosen x and y column names, and the constant title.
\<close>

definition csv_data :: "'c dataframe \<Rightarrow> string \<Rightarrow> string \<Rightarrow> string \<Rightarrow> ('c, 'c, 'c) data" where
  "csv_data df label_col x_col y_col =
     \<lparr>points = map (\<lambda>i. \<lparr>p_label = cell df i label_col, p_x = cell df i x_col,
                         p_y = cell df i y_col\<rparr>) [0..<nrows df],
      xlabel = Some x_col, ylabel = Some y_col, title = Some ''Scatter Plot''\<rparr>"

text \<open>\<open>i\<close> is the position of the first item of \<open>xs\<close> equal to \<open>v\<close>.\<close>

definition first_position :: "'a list \<Rightarrow> 'a \<Rightarrow> nat \<Rightarrow> bool" where
  "first_position xs v i \<longleftrightarrow> i < length xs \<and> xs ! i = v \<and> (\<forall>j<i. xs ! j \<noteq> v)"

text \<open>
  What any iteration order of \<^verbatim>\<open>set(ys)\<close> has to satisfy: it lists each distinct
  value of \<open>ys\<close> exactly once.
\<close>

definition lists_each_once :: "('a list \<Rightarrow> 'a list) \<Rightarrow> bool" where
  "lists_each_once set_order \<longleftrightarrow>
     (\<forall>ys. distinct (set_order ys) \<and> set (set_order ys) = set ys)"

text \<open>
  Every call of the list returns when its turn comes, that is, after the calls before
  it.
\<close>

definition returns_all :: "('l, 'x) library \<Rightarrow> ('l, 'x) call list \<Rightarrow> bool" where
  "returns_all lib cs \<longleftrightarrow> (\<forall>k<length cs. raises lib (take k cs) (cs ! k) = None)"




section \<open>Inputs from the test suite\<close>

text \<open>
  Concrete inputs, most of them from \<^verbatim>\<open>tests/test_plot.py\<close>, at which the theorems
  are instantiated. A cell read by pandas is a number or a text.
\<close>

datatype cell_value = Number rat | Text string

text \<open>\<^verbatim>\<open>pd.DataFrame({'name': ['model-a'], 'time': [100], 'quality': [5]})\<close>\<close>

definition name_time_quality_frame :: "cell_value dataframe" where
  "name_time_quality_frame =
     \<lparr>columns = [''name'', ''time'', ''quality''], nrows = 1,
      cell = (\<lambda>i c. if c = ''name'' then Text ''model-a''
                      else if c = ''time'' then Number 100 else Number 5)\<rparr>"

text \<open>A CSV with the header \<^verbatim>\<open>x,y\<close> and the row \<^verbatim>\<open>100,5\<close>.\<close>

definition x_y_frame :: "cell_value dataframe" where
  "x_y_frame =
     \<lparr>columns = [''x'', ''y''], nrows = 1,
      cell = (\<lambda>i c. if c = ''x'' then Number 100 else Number 5)\<rparr>"

text \<open>A CSV with the header \<^verbatim>\<open>a,b\<close> and the row \<^verbatim>\<open>1,2\<close>, and its text.\<close>

definition a_b_frame :: "cell_value dataframe" where
  "a_b_frame =
     \<lparr>columns = [''a'', ''b''], nrows = 1,
      cell = (\<lambda>i c. if c = ''a'' then Number 1 else Number 2)\<rparr>"

definition a_b_text :: string where
  "a_b_text = ''a,b'' @ [CHR 0x0A] @ ''1,2''"

text \<open>
  \<^verbatim>\<open>json.loads\<close> on a text that is not JSON, \<^verbatim>\<open>json.loads\<close> on a text that parses
  to \<open>v\<close>, and \<^verbatim>\<open>pd.read_csv\<close> on a text that reads as the frame \<open>df\<close>.
\<close>

definition json_rejects :: "string \<Rightarrow> error + ('l, 'x, 'y) data" where
  "json_rejects s = Inl JSONDecodeError"

definition json_accepts :: "'j \<Rightarrow> string \<Rightarrow> error + 'j" where
  "json_accepts v s = Inr v"

definition reads_as :: "'c dataframe \<Rightarrow> string \<Rightarrow> error + 'c dataframe" where
  "reads_as df s = Inr df"


text \<open>\<^verbatim>\<open>{"points": []}\<close>\<close>

definition empty_points_data :: "(string, rat, rat) data" where
  "empty_points_data = \<lparr>points = [], xlabel = None, ylabel = None, title = None\<rparr>"

text \<open>Three points in two tiers, the second tier first seen at position 2.\<close>

definition tied_tiers_data :: "(string, rat, rat) data" where
  "tied_tiers_data =
     \<lparr>points = [\<lparr>p_label = ''model-a'', p_x = 100, p_y = 5\<rparr>,
                \<lparr>p_label = ''model-b'', p_x = 200, p_y = 5\<rparr>,
                \<lparr>p_label = ''model-c'', p_x = 300, p_y = 4\<rparr>],
      xlabel = None, ylabel = None, title = None\<rparr>"

text \<open>Four points in two tiers, the second tier first seen at position 3.\<close>

definition late_tier_data :: "(string, rat, rat) data" where
  "late_tier_data =
     \<lparr>points = [\<lparr>p_label = ''model-a'', p_x = 100, p_y = 5\<rparr>,
                \<lparr>p_label = ''model-b'', p_x = 200, p_y = 5\<rparr>,
                \<lparr>p_label = ''model-c'', p_x = 300, p_y = 5\<rparr>,
                \<lparr>p_label = ''model-d'', p_x = 400, p_y = 4\<rparr>],
      xlabel = None, ylabel = None, title = None\<rparr>"

text \<open>The texts of the inputs above, as they arrive on stdin or in a file.\<close>

definition name_time_quality_text :: string where
  "name_time_quality_text = ''name,time,quality'' @ [CHR 0x0A] @ ''model-a,100,5''"

definition x_y_text :: string where
  "x_y_text = ''x,y'' @ [CHR 0x0A] @ ''100,5''"

definition empty_points_json :: string where
  "empty_points_json = ''{'' @ [CHR 0x22] @ ''points'' @ [CHR 0x22] @ '': []}''"

text \<open>
  Four libraries. The first raises nowhere and lays nothing out. The second is a
  matplotlib whose \<^verbatim>\<open>ax.scatter\<close> raises \<^verbatim>\<open>OverflowError\<close> on a coordinate too
  large for a float (the largest float is below \<open>10 ^ 309\<close>). The third has no style
  named seaborn. The fourth has a layout step that leaves the labels where they are
  when its iteration limit is zero and moves each of them up by one otherwise.
\<close>

definition quiet_library :: "(string, rat) library" where
  "quiet_library = \<lparr>raises = (\<lambda>done c. None), layout = (\<lambda>done a. adj_texts a)\<rparr>"





section \<open>Strings, generators and comprehensions\<close>

lemma py_in_sublist: "py_in sub s = sublist sub s"
  by (induction s) (auto simp: sublist_Cons_right)

lemma py_in_iff: "py_in sub s \<longleftrightarrow> (\<exists>pre suf. s = pre @ sub @ suf)"
  by (simp add: py_in_sublist sublist_def)

lemma is_label_name_mentions: "is_label_name n = name_mentions [''label'', ''name''] n"
  by (simp add: is_label_name_def name_mentions_def py_in_iff)

lemma is_x_name_mentions: "is_x_name n = name_mentions [''x'', ''speed'', ''time''] n"
  by (simp add: is_x_name_def name_mentions_def py_in_iff)

lemma is_y_name_mentions: "is_y_name n = name_mentions [''y'', ''quality'', ''tier''] n"
  by (simp add: is_y_name_def name_mentions_def py_in_iff)

text \<open>
  \<^verbatim>\<open>next\<close> on the filtering generator returns the first column the predicate
  accepts and the default otherwise.
\<close>

lemma py_next_first:
  assumes P: "\<And>n. P n = name_mentions keys n" and fb: "fb < length cols"
  shows "first_mentioning keys fb cols (py_next (filter P cols) (cols ! fb))"
proof (cases "filter P cols")
  case Nil
  then have "\<forall>n\<in>set cols. \<not> P n"
    by (simp add: filter_empty_conv)
  with Nil fb show ?thesis
    by (simp add: first_mentioning_def py_next_def P)
next
  case (Cons c rest)
  then obtain us vs where cols: "cols = us @ c # vs" and us: "\<forall>u\<in>set us. \<not> P u" and c: "P c"
    by (auto simp: filter_eq_Cons_iff)
  have "length us < length cols" "cols ! length us = c"
    by (simp_all add: cols)
  moreover have "\<forall>j<length us. \<not> name_mentions keys (cols ! j)"
    using us by (simp add: cols nth_append P)
  ultimately have "\<exists>i<length cols. c = cols ! i \<and> name_mentions keys (cols ! i)
         \<and> (\<forall>j<i. \<not> name_mentions keys (cols ! j))"
    using c P by blast
  then show ?thesis
    by (simp add: first_mentioning_def py_next_def Cons)
qed

lemma py_next_mem: "d \<in> set cols \<Longrightarrow> py_next (filter P cols) d \<in> set cols"
proof (cases "filter P cols")
  case Nil
  assume "d \<in> set cols"
  with Nil show ?thesis by (simp add: py_next_def)
next
  case (Cons c rest)
  then have "c \<in> set (filter P cols)" by simp
  then have "c \<in> set cols" by simp
  then show ?thesis by (simp add: py_next_def Cons)
qed

lemma collect_map_Inr:
  "(\<And>a. a \<in> set xs \<Longrightarrow> g a = Inr (f a)) \<Longrightarrow> collect (map g xs) = Inr (map f xs)"
  by (induction xs) simp_all

section \<open>The CSV loaders\<close>

lemma detect_columns_short:
  "length cols < 3 \<Longrightarrow> detect_columns cols = Inl IndexError"
  by (auto simp: detect_columns_def columns_at_def Let_def)

lemma detect_columns_ok:
  assumes "3 \<le> length cols"
  shows "detect_columns cols =
           Inr (py_next (filter is_label_name cols) (cols ! 0),
                py_next (filter is_x_name cols) (cols ! 1),
                py_next (filter is_y_name cols) (cols ! 2))"
proof -
  have "0 < length cols" "1 < length cols" "2 < length cols"
    using assms by auto
  then show ?thesis
    by (simp add: detect_columns_def columns_at_def Let_def)
qed

lemma row_point_ok:
  assumes "lc \<in> set (columns df)" "xc \<in> set (columns df)" "yc \<in> set (columns df)"
  shows "row_point df lc xc yc i =
           Inr \<lparr>p_label = cell df i lc, p_x = cell df i xc, p_y = cell df i yc\<rparr>"
  using assms by (simp add: row_point_def row_get_def)

lemma frame_to_data_ok:
  assumes "3 \<le> length (columns df)"
  shows "frame_to_data df =
           Inr (csv_data df (py_next (filter is_label_name (columns df)) (columns df ! 0))
                  (py_next (filter is_x_name (columns df)) (columns df ! 1))
                  (py_next (filter is_y_name (columns df)) (columns df ! 2)))"
proof -
  let ?cols = "columns df"
  let ?lc = "py_next (filter is_label_name ?cols) (?cols ! 0)"
  let ?xc = "py_next (filter is_x_name ?cols) (?cols ! 1)"
  let ?yc = "py_next (filter is_y_name ?cols) (?cols ! 2)"
  have "0 < length ?cols" "1 < length ?cols" "2 < length ?cols"
    using assms by auto
  then have "?cols ! 0 \<in> set ?cols" "?cols ! 1 \<in> set ?cols" "?cols ! 2 \<in> set ?cols"
    by (simp_all only: nth_mem)
  then have mem: "?lc \<in> set ?cols" "?xc \<in> set ?cols" "?yc \<in> set ?cols"
    by (simp_all add: py_next_mem)
  have pts: "collect (map (row_point df ?lc ?xc ?yc) [0..<nrows df])
             = Inr (map (\<lambda>i. \<lparr>p_label = cell df i ?lc, p_x = cell df i ?xc,
                               p_y = cell df i ?yc\<rparr>) [0..<nrows df])"
    by (rule collect_map_Inr) (rule row_point_ok [OF mem])
  show ?thesis
    unfolding frame_to_data_def detect_columns_ok [OF assms] csv_data_def
    by (simp only: pts prod.case sum.case)
qed

lemma frame_to_data_short:
  "length (columns df) < 3 \<Longrightarrow> frame_to_data df = Inl IndexError"
  by (simp add: frame_to_data_def detect_columns_short)

text \<open>
  C2. For a CSV with at least three columns, \<^verbatim>\<open>load_csv_file\<close> and the CSV branch of
  \<^verbatim>\<open>load_stdin\<close> take as label column the first column whose lowercase name contains
  "label" or "name" (column 0 if there is none), as x column the first whose lowercase
  name contains "x", "speed" or "time" (else column 1), as y column the first whose
  lowercase name contains "y", "quality" or "tier" (else column 2), and return one
  point per data row, with the axis labels set to the chosen x and y column names.
\<close>

theorem csv_column_selection:
  assumes "3 \<le> length (columns df)"
    and "read_csv filepath = Inr df"
    and "json_loads stdin_content = Inl JSONDecodeError"
    and "read_stdin_csv stdin_content = Inr df"
  shows "\<exists>label_col x_col y_col.
           first_mentioning [''label'', ''name''] 0 (columns df) label_col \<and>
           first_mentioning [''x'', ''speed'', ''time''] 1 (columns df) x_col \<and>
           first_mentioning [''y'', ''quality'', ''tier''] 2 (columns df) y_col \<and>
           load_csv_file read_csv filepath = Inr (csv_data df label_col x_col y_col) \<and>
           load_stdin json_loads read_stdin_csv stdin_content
             = Inr (Table (csv_data df label_col x_col y_col))"
proof -
  let ?cols = "columns df"
  let ?lc = "py_next (filter is_label_name ?cols) (?cols ! 0)"
  let ?xc = "py_next (filter is_x_name ?cols) (?cols ! 1)"
  let ?yc = "py_next (filter is_y_name ?cols) (?cols ! 2)"
  have len: "0 < length ?cols" "1 < length ?cols" "2 < length ?cols"
    using assms(1) by auto
  have "first_mentioning [''label'', ''name''] 0 ?cols ?lc"
    using len(1) by (intro py_next_first is_label_name_mentions)
  moreover have "first_mentioning [''x'', ''speed'', ''time''] 1 ?cols ?xc"
    using len(2) by (intro py_next_first is_x_name_mentions)
  moreover have "first_mentioning [''y'', ''quality'', ''tier''] 2 ?cols ?yc"
    using len(3) by (intro py_next_first is_y_name_mentions)
  moreover have "load_csv_file read_csv filepath = Inr (csv_data df ?lc ?xc ?yc)"
    by (simp add: load_csv_file_def assms(2) frame_to_data_ok [OF assms(1)])
  moreover have "load_stdin json_loads read_stdin_csv stdin_content
             = Inr (Table (csv_data df ?lc ?xc ?yc))"
    by (simp add: load_stdin_def assms(3,4) frame_to_data_ok [OF assms(1)])
  ultimately show ?thesis by blast
qed

text \<open>The theorem at the frame with the columns name, time, quality.\<close>

theorem csv_column_selection_witness:
  "3 \<le> length (columns name_time_quality_frame) \<and>
   reads_as name_time_quality_frame ''test.csv'' = Inr name_time_quality_frame \<and>
   (json_rejects :: string \<Rightarrow> error + (string, rat, rat) data) name_time_quality_text
     = Inl JSONDecodeError \<and>
   (\<exists>label_col x_col y_col.
      first_mentioning [''label'', ''name''] 0 (columns name_time_quality_frame) label_col \<and>
      first_mentioning [''x'', ''speed'', ''time''] 1 (columns name_time_quality_frame) x_col \<and>
      first_mentioning [''y'', ''quality'', ''tier''] 2 (columns name_time_quality_frame) y_col \<and>
      load_csv_file (reads_as name_time_quality_frame) ''test.csv''
        = Inr (csv_data name_time_quality_frame label_col x_col y_col) \<and>
      load_stdin (json_rejects :: string \<Rightarrow> error + (string, rat, rat) data)
          (reads_as name_time_quality_frame) name_time_quality_text
        = Inr (Table (csv_data name_time_quality_frame label_col x_col y_col)))"
proof -
  have h1: "3 \<le> length (columns name_time_quality_frame)"
    by (simp add: name_time_quality_frame_def)
  have h2: "reads_as name_time_quality_frame ''test.csv'' = Inr name_time_quality_frame"
    by (simp add: reads_as_def)
  have h3: "(json_rejects :: string \<Rightarrow> error + (string, rat, rat) data) name_time_quality_text
              = Inl JSONDecodeError"
    by (simp add: json_rejects_def)
  have h4: "reads_as name_time_quality_frame name_time_quality_text = Inr name_time_quality_frame"
    by (simp add: reads_as_def)
  show ?thesis
    using h1 h2 h3 h4
      csv_column_selection [where df = name_time_quality_frame
        and read_csv = "reads_as name_time_quality_frame" and filepath = "''test.csv''"
        and json_loads = "json_rejects :: string \<Rightarrow> error + (string, rat, rat) data"
        and stdin_content = name_time_quality_text
        and read_stdin_csv = "reads_as name_time_quality_frame"]
    by blast
qed

text \<open>
  What the loaders return there, computed: the columns chosen are name, time and
  quality.
\<close>

lemma name_time_quality_loaded:
  "load_csv_file (reads_as name_time_quality_frame) ''test.csv''
     = Inr \<lparr>points = [\<lparr>p_label = Text ''model-a'', p_x = Number 100, p_y = Number 5\<rparr>],
            xlabel = Some ''time'', ylabel = Some ''quality'',
            title = Some ''Scatter Plot''\<rparr>"
  by code_simp

text \<open>
  C9. With fewer than three columns in the header, \<^verbatim>\<open>load_csv_file\<close> and the CSV
  branch of \<^verbatim>\<open>load_stdin\<close> raise \<^verbatim>\<open>IndexError\<close>, whatever the column names are,
  because the defaults \<^verbatim>\<open>df.columns[1]\<close> and \<^verbatim>\<open>df.columns[2]\<close> are evaluated
  before \<^verbatim>\<open>next\<close> runs; with three or more columns they return a result.
\<close>

theorem csv_needs_three_columns:
  assumes "read_csv filepath = Inr df"
    and "json_loads stdin_content = Inl JSONDecodeError"
    and "read_stdin_csv stdin_content = Inr df"
  shows "(length (columns df) < 3 \<longrightarrow>
            load_csv_file read_csv filepath = Inl IndexError \<and>
            load_stdin json_loads read_stdin_csv stdin_content = Inl IndexError) \<and>
         (3 \<le> length (columns df) \<longrightarrow>
            (\<exists>d. load_csv_file read_csv filepath = Inr d) \<and>
            (\<exists>d. load_stdin json_loads read_stdin_csv stdin_content = Inr (Table d)))"
  using assms
  by (simp add: load_csv_file_def load_stdin_def frame_to_data_short frame_to_data_ok)

text \<open>
  The theorem at the header \<^verbatim>\<open>x,y\<close>, where both names match a heuristic and the
  loaders raise all the same, and at the three-column frame.
\<close>

theorem csv_needs_three_columns_witness:
  "length (columns x_y_frame) < 3 \<and>
   load_csv_file (reads_as x_y_frame) ''test.csv'' = Inl IndexError \<and>
   load_stdin (json_rejects :: string \<Rightarrow> error + (string, rat, rat) data)
     (reads_as x_y_frame) x_y_text = Inl IndexError \<and>
   3 \<le> length (columns name_time_quality_frame) \<and>
   (\<exists>d. load_csv_file (reads_as name_time_quality_frame) ''test.csv'' = Inr d) \<and>
   (\<exists>d. load_stdin (json_rejects :: string \<Rightarrow> error + (string, rat, rat) data)
          (reads_as name_time_quality_frame) name_time_quality_text = Inr (Table d))"
proof -
  have j: "(json_rejects :: string \<Rightarrow> error + (string, rat, rat) data) s = Inl JSONDecodeError"
    for s by (simp add: json_rejects_def)
  have r: "reads_as df s = Inr df" for df :: "cell_value dataframe" and s
    by (simp add: reads_as_def)
  have short: "length (columns x_y_frame) < 3"
    by (simp add: x_y_frame_def)
  have long: "3 \<le> length (columns name_time_quality_frame)"
    by (simp add: name_time_quality_frame_def)
  show ?thesis
    using short long
      csv_needs_three_columns [where df = x_y_frame
        and read_csv = "reads_as x_y_frame" and filepath = "''test.csv''"
        and json_loads = "json_rejects :: string \<Rightarrow> error + (string, rat, rat) data"
        and stdin_content = x_y_text and read_stdin_csv = "reads_as x_y_frame", OF r j r]
      csv_needs_three_columns [where df = name_time_quality_frame
        and read_csv = "reads_as name_time_quality_frame" and filepath = "''test.csv''"
        and json_loads = "json_rejects :: string \<Rightarrow> error + (string, rat, rat) data"
        and stdin_content = name_time_quality_text
        and read_stdin_csv = "reads_as name_time_quality_frame", OF r j r]
    by simp
qed

section \<open>JSON first, CSV as the fallback\<close>

text \<open>
  C3, as the code has it. \<^verbatim>\<open>load_stdin\<close> returns the JSON-parsed value exactly when
  the text parses as JSON. It falls back to CSV parsing if and only if
  \<^verbatim>\<open>json.loads\<close> raises \<^verbatim>\<open>JSONDecodeError\<close>: then its result is that of the CSV
  statements, and otherwise the result does not depend on the CSV reader and is no CSV
  dict. When the text reads as a table with at least three columns, the fallback returns a
  dict whose points have one entry per data row and whose title is "Scatter Plot".
\<close>

theorem load_stdin_json_then_csv:
  "(\<forall>v. load_stdin json_loads read_csv stdin_content = Inr (Parsed v)
          \<longleftrightarrow> json_loads stdin_content = Inr v) \<and>
   (json_loads stdin_content = Inl JSONDecodeError \<longrightarrow>
      load_stdin json_loads read_csv stdin_content =
        (case read_csv stdin_content of
           Inl e \<Rightarrow> Inl e
         | Inr df \<Rightarrow> (case frame_to_data df of Inl e \<Rightarrow> Inl e | Inr d \<Rightarrow> Inr (Table d)))) \<and>
   (json_loads stdin_content \<noteq> Inl JSONDecodeError \<longrightarrow>
      (\<forall>other_csv. load_stdin json_loads other_csv stdin_content
                     = load_stdin json_loads read_csv stdin_content) \<and>
      (\<forall>d. load_stdin json_loads read_csv stdin_content \<noteq> Inr (Table d))) \<and>
   (\<forall>df. json_loads stdin_content = Inl JSONDecodeError \<and> read_csv stdin_content = Inr df
          \<and> 3 \<le> length (columns df) \<longrightarrow>
      (\<exists>d. load_stdin json_loads read_csv stdin_content = Inr (Table d)
           \<and> length (points d) = nrows df \<and> title d = Some ''Scatter Plot''))"
proof (intro conjI allI impI)
  fix v
  show "load_stdin json_loads read_csv stdin_content = Inr (Parsed v)
          \<longleftrightarrow> json_loads stdin_content = Inr v"
    by (auto simp: load_stdin_def split: sum.splits)
next
  assume "json_loads stdin_content = Inl JSONDecodeError"
  then show "load_stdin json_loads read_csv stdin_content =
        (case read_csv stdin_content of
           Inl e \<Rightarrow> Inl e
         | Inr df \<Rightarrow> (case frame_to_data df of Inl e \<Rightarrow> Inl e | Inr d \<Rightarrow> Inr (Table d)))"
    by (simp add: load_stdin_def)
next
  fix other_csv :: "string \<Rightarrow> error + 'b dataframe"
  assume "json_loads stdin_content \<noteq> Inl JSONDecodeError"
  then show "load_stdin json_loads other_csv stdin_content
                     = load_stdin json_loads read_csv stdin_content"
    by (auto simp: load_stdin_def split: sum.splits)
next
  fix d
  assume "json_loads stdin_content \<noteq> Inl JSONDecodeError"
  then show "load_stdin json_loads read_csv stdin_content \<noteq> Inr (Table d)"
    by (auto simp: load_stdin_def split: sum.splits)
next
  fix df
  assume "json_loads stdin_content = Inl JSONDecodeError \<and> read_csv stdin_content = Inr df
          \<and> 3 \<le> length (columns df)"
  then show "\<exists>d. load_stdin json_loads read_csv stdin_content = Inr (Table d)
           \<and> length (points d) = nrows df \<and> title d = Some ''Scatter Plot''"
    by (simp add: load_stdin_def frame_to_data_ok csv_data_def)
qed

text \<open>
  The theorem at a text that parses as JSON, where the parsed value comes back, and at a
  three-column CSV, where the fallback returns the dict.
\<close>

theorem load_stdin_json_then_csv_witness:
  "json_accepts empty_points_data empty_points_json \<noteq> Inl JSONDecodeError \<and>
   load_stdin (json_accepts empty_points_data) (reads_as name_time_quality_frame)
     empty_points_json = Inr (Parsed empty_points_data) \<and>
   (json_rejects :: string \<Rightarrow> error + (string, rat, rat) data) name_time_quality_text
     = Inl JSONDecodeError \<and>
   reads_as name_time_quality_frame name_time_quality_text = Inr name_time_quality_frame \<and>
   3 \<le> length (columns name_time_quality_frame) \<and>
   (\<exists>d. load_stdin (json_rejects :: string \<Rightarrow> error + (string, rat, rat) data)
          (reads_as name_time_quality_frame) name_time_quality_text = Inr (Table d)
        \<and> length (points d) = nrows name_time_quality_frame
        \<and> title d = Some ''Scatter Plot'')"
proof -
  have a: "json_accepts empty_points_data empty_points_json = Inr empty_points_data"
    by (simp add: json_accepts_def)
  have j: "(json_rejects :: string \<Rightarrow> error + (string, rat, rat) data) name_time_quality_text
             = Inl JSONDecodeError"
    by (simp add: json_rejects_def)
  have r: "reads_as name_time_quality_frame name_time_quality_text = Inr name_time_quality_frame"
    by (simp add: reads_as_def)
  have l: "3 \<le> length (columns name_time_quality_frame)"
    by (simp add: name_time_quality_frame_def)
  have p: "load_stdin (json_accepts empty_points_data) (reads_as name_time_quality_frame)
             empty_points_json = Inr (Parsed empty_points_data)"
    using a load_stdin_json_then_csv [of "json_accepts empty_points_data"
        "reads_as name_time_quality_frame" empty_points_json,
        THEN conjunct1, THEN spec, of empty_points_data]
    by simp
  have q: "\<exists>d. load_stdin (json_rejects :: string \<Rightarrow> error + (string, rat, rat) data)
          (reads_as name_time_quality_frame) name_time_quality_text = Inr (Table d)
        \<and> length (points d) = nrows name_time_quality_frame
        \<and> title d = Some ''Scatter Plot''"
    using j r l load_stdin_json_then_csv
       [of "json_rejects :: string \<Rightarrow> error + (string, rat, rat) data"
        "reads_as name_time_quality_frame" name_time_quality_text,
        THEN conjunct2, THEN conjunct2, THEN conjunct2, THEN spec, of name_time_quality_frame]
    by blast
  show ?thesis
    using a j r l p q by simp
qed

text \<open>
  C3 as the claim states it, for every stdin content, fails at the two-column CSV
  \<^verbatim>\<open>a,b\<close> / \<^verbatim>\<open>1,2\<close>: the text is not JSON, pandas reads it, and the fallback raises
  \<^verbatim>\<open>IndexError\<close> at \<^verbatim>\<open>df.columns[2]\<close> instead of returning a dict.
\<close>

theorem load_stdin_two_columns_counterexample:
  "load_stdin (json_rejects :: string \<Rightarrow> error + (string, rat, rat) data)
     (reads_as a_b_frame) a_b_text = Inl IndexError"
  by (simp add: load_stdin_def json_rejects_def reads_as_def frame_to_data_def
      detect_columns_def columns_at_def a_b_frame_def Let_def)

section \<open>The colours\<close>

lemma py_index_takeWhile:
  "v \<in> set xs \<Longrightarrow> py_index xs v = Inr (length (takeWhile (\<lambda>a. a \<noteq> v) xs))"
  by (induction xs) auto

lemma first_position_takeWhile:
  "v \<in> set xs \<Longrightarrow> first_position xs v (length (takeWhile (\<lambda>a. a \<noteq> v) xs))"
  by (induction xs) (auto simp: first_position_def nth_Cons split: nat.splits)

text \<open>
  The colour comprehension never raises: every y-value is found by \<^verbatim>\<open>index\<close>, and a
  list with an element has at least one distinct value, so the divisor is not zero.
\<close>

lemma collect_fractions:
  assumes "set u = set ys"
  shows "set zs \<subseteq> set ys \<Longrightarrow>
         collect (map (color_fraction ys u) zs) =
           Inr (map (\<lambda>v. of_nat (length (takeWhile (\<lambda>a. a \<noteq> v) ys)) / of_nat (length u)) zs)"
proof (induction zs)
  case Nil
  show ?case by simp
next
  case (Cons z zs)
  then have z: "z \<in> set ys" and zs: "set zs \<subseteq> set ys" by simp_all
  from z assms have "u \<noteq> []" by auto
  then have "length u \<noteq> 0" by simp
  with z have "color_fraction ys u z
      = Inr (of_nat (length (takeWhile (\<lambda>a. a \<noteq> z) ys)) / of_nat (length u))"
    by (simp add: color_fraction_def py_index_takeWhile py_truediv_def)
  with Cons.IH [OF zs] show ?case by simp
qed

lemma tier_colors_ok:
  assumes "set u = set ys"
  shows "tier_colors ys u =
           Inr (if length u \<le> 10
                then Viridis (map (\<lambda>v. of_nat (length (takeWhile (\<lambda>a. a \<noteq> v) ys))
                                          / of_nat (length u)) ys)
                else Named ''steelblue'')"
  by (simp add: tier_colors_def collect_fractions [OF assms])

lemma sort_each_once:
  assumes "lists_each_once e1" "lists_each_once e2"
  shows "sort (e1 ys) = sort (e2 ys)"
proof (rule sorted_distinct_set_unique)
  show "sorted (sort (e1 ys))" "sorted (sort (e2 ys))" by simp_all
  show "distinct (sort (e1 ys))" "distinct (sort (e2 ys))"
    using assms by (simp_all add: lists_each_once_def)
  show "set (sort (e1 ys)) = set (sort (e2 ys))"
    using assms by (simp add: lists_each_once_def)
qed


section \<open>Runs of library calls\<close>

text \<open>
  A run either makes every call, and then each returned in its turn, or it stops at the
  first call that raises.
\<close>

lemma run_calls_cases:
  "(run_calls lib done cs = (done @ cs, None)
      \<and> (\<forall>k<length cs. raises lib (done @ take k cs) (cs ! k) = None))
   \<or> (\<exists>k<length cs. \<exists>e. run_calls lib done cs = (done @ take (Suc k) cs, Some e)
          \<and> raises lib (done @ take k cs) (cs ! k) = Some e)"
proof (induction cs arbitrary: "done")
  case Nil
  show ?case by simp
next
  case (Cons c cs)
  show ?case
  proof (cases "raises lib done c")
    case (Some e)
    then have "run_calls lib done (c # cs) = (done @ take (Suc 0) (c # cs), Some e)"
      and "raises lib (done @ take 0 (c # cs)) ((c # cs) ! 0) = Some e"
      by simp_all
    then show ?thesis by blast
  next
    case None
    from Cons.IH [of "done @ [c]"] show ?thesis
    proof (elim disjE conjE exE)
      assume all: "run_calls lib (done @ [c]) cs = ((done @ [c]) @ cs, None)"
        and each: "\<forall>k<length cs. raises lib ((done @ [c]) @ take k cs) (cs ! k) = None"
      have "raises lib (done @ take k (c # cs)) ((c # cs) ! k) = None"
        if "k < length (c # cs)" for k
      proof (cases k)
        case 0
        with None show ?thesis by simp
      next
        case (Suc j)
        with that each show ?thesis by simp
      qed
      with all None show ?thesis by simp
    next
      fix k e
      assume k: "k < length cs"
        and stop: "run_calls lib (done @ [c]) cs = ((done @ [c]) @ take (Suc k) cs, Some e)"
        and r: "raises lib ((done @ [c]) @ take k cs) (cs ! k) = Some e"
      have "Suc k < length (c # cs)"
        using k by simp
      moreover have "run_calls lib done (c # cs) = (done @ take (Suc (Suc k)) (c # cs), Some e)"
        using stop None by simp
      moreover have "raises lib (done @ take (Suc k) (c # cs)) ((c # cs) ! Suc k) = Some e"
        using r by simp
      ultimately show ?thesis by blast
    qed
  qed
qed

lemma run_calls_all:
  "returns_all lib cs \<Longrightarrow> run_calls lib [] cs = (cs, None)"
  using run_calls_cases [of lib "[]" cs] by (auto simp: returns_all_def)


lemma run_calls_trace:
  "\<exists>k. fst (run_calls lib [] cs) = take k cs"
proof -
  have "fst (run_calls lib [] cs) = take (length cs) cs
      \<or> (\<exists>k. fst (run_calls lib [] cs) = take (Suc k) cs)"
    using run_calls_cases [of lib "[]" cs] by auto
  then show ?thesis by blast
qed


section \<open>The labels created in a run\<close>










section \<open>The plot against a library\<close>


lemma plot_calls_eq:
  assumes "tier_colors (map p_y (points dat)) (sort (remdups (map p_y (points dat))))
             = Inr colors"
  shows "plot_calls remdups dat figsize style =
           drawing_calls figsize style (map p_x (points dat)) (map p_y (points dat))
             (map p_label (points dat)) colors
           @ [Adjust_text (adjust_arguments
                (label_artists (map p_x (points dat)) (map p_y (points dat))
                   (map p_label (points dat))))]
           @ styling_calls dat (sort (remdups (map p_y (points dat))))"
  by (simp add: plot_calls_def Let_def assms)

lemma create_fst:
  assumes "tier_colors (map p_y (points dat)) (sort (remdups (map p_y (points dat))))
             = Inr colors"
  shows "fst (create_scatter_plot lib dat figsize style)
           = fst (run_calls lib [] (plot_calls remdups dat figsize style))"
  by (simp add: create_scatter_plot_def create_scatter_plot_with_def Let_def assms finish_def
      split: option.splits)


lemma create_Inr:
  assumes "tier_colors (map p_y (points dat)) (sort (remdups (map p_y (points dat))))
             = Inr colors"
    and "snd (create_scatter_plot lib dat figsize style) = Inr fig"
  shows "snd (run_calls lib [] (plot_calls remdups dat figsize style)) = None"
    and "texts fig = label_artists (map p_x (points dat)) (map p_y (points dat))
                       (map p_label (points dat))"
    and "adjust_text fig = adjust_arguments (texts fig)"
    and "scatter fig = scatter_arguments (map p_x (points dat)) (map p_y (points dat)) colors"
    and "yticks fig = (if length (sort (remdups (map p_y (points dat)))) \<le> 10
                       then Some (sort (remdups (map p_y (points dat))),
                                  map tick_label (sort (remdups (map p_y (points dat)))))
                       else None)"
    and "laid_out fig = layout lib
           (drawing_calls figsize style (map p_x (points dat)) (map p_y (points dat))
              (map p_label (points dat)) colors) (adjust_text fig)"
  using assms(2)
  by (auto simp: create_scatter_plot_def create_scatter_plot_with_def Let_def assms(1)
      finish_def split: option.splits)

lemma create_returns:
  assumes "tier_colors (map p_y (points dat)) (sort (remdups (map p_y (points dat))))
             = Inr colors"
    and "returns_all lib (plot_calls remdups dat figsize style)"
  shows "\<exists>fig. snd (create_scatter_plot lib dat figsize style) = Inr fig"
  by (simp add: create_scatter_plot_def create_scatter_plot_with_def Let_def assms(1)
      finish_def run_calls_all [OF assms(2)])















text \<open>
  C7. The plot is a function of the data, the figure size and the style alone, given
  what the library does. The one thing in the code that can differ between two runs is
  the order in which the hash set of y-values is iterated, and the result does not
  depend on it: two runs with any two iteration orders make the same calls and return
  the same figure (or raise the same exception), hence the same scatter coordinates,
  colours, initial label placements and layout configuration.
\<close>

theorem plot_independent_of_set_order:
  assumes "lists_each_once e1" "lists_each_once e2"
  shows "create_scatter_plot_with lib e1 dat figsize style
           = create_scatter_plot_with lib e2 dat figsize style"
  by (simp only: create_scatter_plot_with_def plot_calls_def sort_each_once [OF assms])

text \<open>
  The theorem at two iteration orders, first occurrences in input order and in reverse.
\<close>

theorem plot_independent_of_set_order_witness:
  "lists_each_once (remdups :: rat list \<Rightarrow> rat list) \<and>
   lists_each_once (rev \<circ> remdups :: rat list \<Rightarrow> rat list) \<and>
   create_scatter_plot_with quiet_library remdups tied_tiers_data (12, 8) ''default''
     = create_scatter_plot_with quiet_library (rev \<circ> remdups) tied_tiers_data (12, 8)
         ''default''"
proof -
  have h1: "lists_each_once (remdups :: rat list \<Rightarrow> rat list)"
    by (simp add: lists_each_once_def)
  have h2: "lists_each_once (rev \<circ> remdups :: rat list \<Rightarrow> rat list)"
    by (simp add: lists_each_once_def)
  show ?thesis
    using h1 h2 plot_independent_of_set_order [OF h1 h2] by blast
qed

text \<open>
  C10, as the code has it. With at most 10 distinct y-values, the colour fraction of
  each point is the position of the first point, in input order, with the same
  y-value, divided by the number of distinct y-values. Points with equal y-values get
  the same fraction. The fraction is at least 1 exactly when that first position is
  greater than or equal to the number of distinct y-values, and it exceeds 1 exactly
  when the position is greater. These fractions are what \<^verbatim>\<open>plt.cm.viridis\<close> and
  \<^verbatim>\<open>ax.scatter\<close> receive in every run, and the colours of every figure returned.
\<close>

theorem tier_color_fractions:
  assumes "card (set (map p_y (points dat))) \<le> 10"
  shows "\<exists>fs. length fs = length (points dat)
     \<and> (\<forall>k<length (points dat). \<exists>i.
           first_position (map p_y (points dat)) (p_y (points dat ! k)) i
         \<and> fs ! k = of_nat i / of_nat (card (set (map p_y (points dat))))
         \<and> (1 \<le> fs ! k \<longleftrightarrow> card (set (map p_y (points dat))) \<le> i)
         \<and> (1 < fs ! k \<longleftrightarrow> card (set (map p_y (points dat))) < i))
     \<and> (\<forall>k<length (points dat). \<forall>l<length (points dat).
           p_y (points dat ! k) = p_y (points dat ! l) \<longrightarrow> fs ! k = fs ! l)
     \<and> (\<forall>fig. snd (create_scatter_plot lib dat figsize style) = Inr fig \<longrightarrow>
           sc_c (scatter fig) = Viridis fs)
     \<and> (\<forall>sc. Ax_scatter sc \<in> set (fst (create_scatter_plot lib dat figsize style)) \<longrightarrow>
           sc_c sc = Viridis fs)
     \<and> (\<forall>fs'. Cm_viridis fs' \<in> set (fst (create_scatter_plot lib dat figsize style)) \<longrightarrow>
           fs' = fs)
     \<and> (returns_all lib (plot_calls remdups dat figsize style) \<longrightarrow>
           (\<exists>fig. snd (create_scatter_plot lib dat figsize style) = Inr fig))"
proof -
  let ?ys = "map p_y (points dat)"
  let ?n = "card (set ?ys)"
  let ?idx = "\<lambda>v. length (takeWhile (\<lambda>a. a \<noteq> v) ?ys)"
  let ?fs = "map (\<lambda>v. of_nat (?idx v) / of_nat ?n) ?ys :: rat list"
  let ?trace = "fst (create_scatter_plot lib dat figsize style)"
  have len: "length (sort (remdups ?ys)) = ?n"
    by (simp add: length_remdups_card_conv)
  have "tier_colors ?ys (sort (remdups ?ys)) =
          Inr (if length (sort (remdups ?ys)) \<le> 10
               then Viridis (map (\<lambda>v. of_nat (?idx v) / of_nat (length (sort (remdups ?ys)))) ?ys)
               else Named ''steelblue'')"
    by (rule tier_colors_ok) simp
  then have col: "tier_colors ?ys (sort (remdups ?ys)) = Inr (Viridis ?fs)"
    using assms by (simp only: len if_True)
  have each: "\<exists>i. first_position ?ys (p_y (points dat ! k)) i
         \<and> ?fs ! k = of_nat i / of_nat ?n
         \<and> (1 \<le> ?fs ! k \<longleftrightarrow> ?n \<le> i)
         \<and> (1 < ?fs ! k \<longleftrightarrow> ?n < i)" if k: "k < length (points dat)" for k
  proof -
    let ?v = "p_y (points dat ! k)"
    have mem: "?v \<in> set ?ys"
      using k by simp
    then have "set ?ys \<noteq> {}" by auto
    then have pos: "0 < ?n"
      by (simp add: card_gt_0_iff)
    then have rpos: "(0::rat) < of_nat ?n" by simp
    have fk: "?fs ! k = of_nat (?idx ?v) / of_nat ?n"
      using k by simp
    have "(1 \<le> ?fs ! k) = (?n \<le> ?idx ?v)"
      unfolding fk le_divide_eq_1_pos [OF rpos] by simp
    moreover have "(1 < ?fs ! k) = (?n < ?idx ?v)"
      unfolding fk less_divide_eq_1_pos [OF rpos] by simp
    ultimately show ?thesis
      using first_position_takeWhile [OF mem] fk by blast
  qed
  have same: "?fs ! k = ?fs ! l"
    if "k < length (points dat)" "l < length (points dat)"
      "p_y (points dat ! k) = p_y (points dat ! l)" for k l
    using that by simp
  have size: "length ?fs = length (points dat)" by simp
  have returned: "sc_c (scatter fig) = Viridis ?fs"
    if "snd (create_scatter_plot lib dat figsize style) = Inr fig" for fig
    using create_Inr(4) [OF col that] by (simp add: scatter_arguments_def)
  obtain k where "?trace = take k (plot_calls remdups dat figsize style)"
    using run_calls_trace [of lib "plot_calls remdups dat figsize style"]
    by (auto simp only: create_fst [OF col])
  then have sub: "set ?trace \<subseteq> set (plot_calls remdups dat figsize style)"
    by (simp add: set_take_subset)
  have drawn: "sc_c sc = Viridis ?fs" if "Ax_scatter sc \<in> set ?trace" for sc
  proof -
    from that sub have "Ax_scatter sc \<in> set (plot_calls remdups dat figsize style)"
      by blast
    then have "sc = scatter_arguments (map p_x (points dat)) ?ys (Viridis ?fs)"
      unfolding plot_calls_eq [OF col]
      by (auto simp: drawing_calls_def opening_calls_def styling_calls_def)
    then show ?thesis by (simp add: scatter_arguments_def)
  qed
  have mapped: "fs' = ?fs" if "Cm_viridis fs' \<in> set ?trace" for fs'
  proof -
    from that sub have "Cm_viridis fs' \<in> set (plot_calls remdups dat figsize style)"
      by blast
    then show ?thesis
      unfolding plot_calls_eq [OF col]
      by (auto simp: drawing_calls_def opening_calls_def styling_calls_def)
  qed
  have runs: "\<exists>fig. snd (create_scatter_plot lib dat figsize style) = Inr fig"
    if "returns_all lib (plot_calls remdups dat figsize style)"
    using create_returns [OF col that] .
  from size each same returned drawn mapped runs show ?thesis
    by blast
qed

text \<open>The theorem at four points in two tiers and a library that returns.\<close>

theorem tier_color_fractions_witness:
  "card (set (map p_y (points late_tier_data))) \<le> 10 \<and>
   returns_all quiet_library (plot_calls remdups late_tier_data (12, 8) ''default'') \<and>
   (\<exists>fs fig. snd (create_scatter_plot quiet_library late_tier_data (12, 8) ''default'') = Inr fig
     \<and> sc_c (scatter fig) = Viridis fs
     \<and> length fs = length (points late_tier_data)
     \<and> (\<forall>k<length (points late_tier_data). \<exists>i.
           first_position (map p_y (points late_tier_data)) (p_y (points late_tier_data ! k)) i
         \<and> fs ! k = of_nat i / of_nat (card (set (map p_y (points late_tier_data))))
         \<and> (1 \<le> fs ! k \<longleftrightarrow> card (set (map p_y (points late_tier_data))) \<le> i)
         \<and> (1 < fs ! k \<longleftrightarrow> card (set (map p_y (points late_tier_data))) < i))
     \<and> (\<forall>k<length (points late_tier_data). \<forall>l<length (points late_tier_data).
           p_y (points late_tier_data ! k) = p_y (points late_tier_data ! l)
             \<longrightarrow> fs ! k = fs ! l))"
proof -
  have h: "card (set (map p_y (points late_tier_data))) \<le> 10"
    by (simp add: late_tier_data_def)
  have r: "returns_all quiet_library (plot_calls remdups late_tier_data (12, 8) ''default'')"
    by (simp add: returns_all_def quiet_library_def)
  from tier_color_fractions [OF h, of quiet_library "(12, 8)" "''default''"] r
  show ?thesis
    using h by blast
qed

text \<open>
  There the y-value 4 is first seen at position 3, there are 2 distinct y-values, and the
  fraction of the last point is 3/2.
\<close>

lemma late_tier_colors:
  "map_sum id (sc_c \<circ> scatter)
     (snd (create_scatter_plot quiet_library late_tier_data (12, 8) ''default''))
     = Inr (Viridis [0, 0, 0, 3 / 2])"
  by (simp add: create_scatter_plot_def create_scatter_plot_with_def plot_calls_def Let_def
      tier_colors_def color_fraction_def py_truediv_def drawing_calls_def opening_calls_def
      styling_calls_def scatter_arguments_def label_artists_def finish_def quiet_library_def
      late_tier_data_def)

text \<open>
  C10 as the claim states it fails at the boundary. In the three points with y-values
  5, 5, 4 the value 4 is first seen at position 2, which is equal to the number of
  distinct y-values, and its fraction is exactly 1: it does not exceed 1.
\<close>

theorem fraction_at_boundary_counterexample:
  "py_index (map p_y (points tied_tiers_data)) 4 = Inr 2 \<and>
   length (sort (remdups (map p_y (points tied_tiers_data)))) = 2 \<and>
   map_sum id (sc_c \<circ> scatter)
     (snd (create_scatter_plot quiet_library tied_tiers_data (12, 8) ''default''))
     = Inr (Viridis [0, 0, 1])"
  by (simp add: create_scatter_plot_def create_scatter_plot_with_def plot_calls_def Let_def
      tier_colors_def color_fraction_def py_truediv_def drawing_calls_def opening_calls_def
      styling_calls_def scatter_arguments_def label_artists_def finish_def quiet_library_def
      tied_tiers_data_def)

end
